theory Spec2Isabelle
  imports Main "HOL-Library.Word"
begin

section \<open>registermaps.util: errors and basic types\<close>

text \<open>
  The exceptions that the functions of \<^verbatim>\<open>util.py\<close> raise or let through, as values.
  Every function that can raise returns \<open>error + 'a\<close>, with \<open>Inl\<close> the exception.
\<close>

datatype error =
    FileNotFoundError
  | IsADirectoryError
  | NotADirectoryError
  | PermissionError
  | UnicodeDecodeError
  | CodecError
  | TemplateNotFound
  | TemplateSyntaxError
  | NotImplementedError
  | AttributeError
  | KeyError
  | TypeError
  | ValueError
  | FileExistsError
  | OSError

type_synonym byte = "8 word"

text \<open>A Python \<^verbatim>\<open>str\<close> read from a file: its Unicode code points.\<close>

type_synonym pystr = "nat list"

section \<open>Output class registration\<close>

text \<open>
  A class handed to \<^verbatim>\<open>Outputs.register\<close>: its \<^verbatim>\<open>outputname\<close> attribute
  (\<open>None\<close> when the class has none, so that reading it raises AttributeError) and
  the rest of the class.
\<close>

record 'b kls =
  outputname :: "string option"
  body :: 'b

text \<open>
  \<^verbatim>\<open>self._outputs\<close> is a Python dict: keys in insertion order, a store to a key that
  is present replaces the value in place, a reading of an absent key raises KeyError.
\<close>

type_synonym ('k, 'v) pydict = "('k \<times> 'v) list"

fun dict_setitem :: "('k, 'v) pydict \<Rightarrow> 'k \<Rightarrow> 'v \<Rightarrow> ('k, 'v) pydict" where
  "dict_setitem [] k v = [(k, v)]"
| "dict_setitem ((k', v') # d) k v =
     (if k' = k then (k, v) # d else (k', v') # dict_setitem d k v)"

definition dict_getitem :: "('k, 'v) pydict \<Rightarrow> 'k \<Rightarrow> error + 'v" where
  "dict_getitem d k = (case map_of d k of None \<Rightarrow> Inl KeyError | Some v \<Rightarrow> Inr v)"

definition dict_keys :: "('k, 'v) pydict \<Rightarrow> 'k list" where
  "dict_keys d = map fst d"

text \<open>\<^verbatim>\<open>_Outputs.__init__\<close>: the empty registry.\<close>

definition Outputs_init :: "(string, 'b kls) pydict" where
  "Outputs_init = []"

text \<open>
  \<^verbatim>\<open>_Outputs.register\<close>: \<^verbatim>\<open>self._outputs[kls.outputname] = kls; return kls\<close>.
  The result is the returned class and the registry after the store.
\<close>

definition register :: "(string, 'b kls) pydict \<Rightarrow> 'b kls \<Rightarrow> error + ('b kls \<times> (string, 'b kls) pydict)" where
  "register outputs k =
     (case outputname k of
        None \<Rightarrow> Inl AttributeError
      | Some s \<Rightarrow> Inr (k, dict_setitem outputs s k))"

text \<open>\<^verbatim>\<open>_Outputs.__iter__\<close>: \<^verbatim>\<open>iter(self._outputs.keys())\<close>.\<close>

definition Outputs_iter :: "(string, 'b kls) pydict \<Rightarrow> string list" where
  "Outputs_iter outputs = dict_keys outputs"

text \<open>\<^verbatim>\<open>_Outputs.output\<close>: \<^verbatim>\<open>return self._outputs[output]\<close>.\<close>

definition Outputs_output :: "(string, 'b kls) pydict \<Rightarrow> string \<Rightarrow> error + 'b kls" where
  "Outputs_output outputs name = dict_getitem outputs name"

section \<open>Resource management\<close>

text \<open>\<^verbatim>\<open>_RSC = 'resource/'\<close>, the base path for resource files.\<close>

definition RSC :: string where
  "RSC = ''resource/''"

text \<open>\<^verbatim>\<open>x.startswith(p)\<close> on strings.\<close>

definition startswith :: "string \<Rightarrow> string \<Rightarrow> bool" where
  "startswith x p = (take (length p) x = p)"

text \<open>
  \<^verbatim>\<open>_strip_resource\<close>: \<^verbatim>\<open>if x.startswith(_RSC): return x[len(_RSC):]\<close>, otherwise \<^verbatim>\<open>x\<close>.
\<close>

definition strip_resource :: "string \<Rightarrow> string" where
  "strip_resource x = (if startswith x RSC then drop (length RSC) x else x)"

subsection \<open>The file system that holds the bundle\<close>

text \<open>
  The resources are files below the directory \<^verbatim>\<open>_RESOURCE_BASE\<close>, a \<^verbatim>\<open>pathlib\<close> path of
  the file system the program runs on. A node of that file system is a regular file with
  its bytes, or a directory with its entries by name. The file system does not change
  while the program runs; every file in it can be read, and it has no symbolic links.
\<close>

datatype node = File "byte list" | Dir "(string \<times> node) list"

text \<open>\<^verbatim>\<open>s.split(c)\<close> on strings.\<close>

fun split_on :: "char \<Rightarrow> string \<Rightarrow> string list" where
  "split_on c [] = [[]]"
| "split_on c (x # xs) =
     (if x = c then [] # split_on c xs
      else (case split_on c xs of
              p # ps \<Rightarrow> (x # p) # ps
            | [] \<Rightarrow> [[x]]))"

text \<open>
  The parts of a path as \<^verbatim>\<open>pathlib\<close> keeps them: the segments between slashes, without
  the empty ones and without \<^verbatim>\<open>.\<close>; a \<^verbatim>\<open>..\<close> stays.
\<close>

definition path_parts :: "string \<Rightarrow> string list" where
  "path_parts p = filter (\<lambda>seg. seg \<noteq> [] \<and> seg \<noteq> ''.'') (split_on CHR ''/'' p)"

text \<open>
  \<^verbatim>\<open>base / name\<close> for an absolute path \<open>base\<close>, given by its parts from the root: an
  absolute \<open>name\<close> replaces \<open>base\<close>, any other is appended to it.
\<close>

definition joinpath :: "string list \<Rightarrow> string \<Rightarrow> string list" where
  "joinpath base name =
     (if startswith name ''/'' then path_parts name else base @ path_parts name)"

text \<open>\<^verbatim>\<open>str(path)\<close> for an absolute path: each part after a slash.\<close>

definition path_str :: "string list \<Rightarrow> string" where
  "path_str parts = (if parts = [] then ''/'' else concat (map (\<lambda>seg. CHR ''/'' # seg) parts))"

text \<open>
  The walk of the operating system along the parts of a path, from the directory \<open>cur\<close>
  whose ancestors are \<open>ups\<close>, nearest first. A step needs a directory to step from,
  otherwise NotADirectoryError; \<^verbatim>\<open>..\<close> steps to the parent, which for the root is the
  root; a name of more than 255 bytes is refused (OSError, file name too long); a name
  that the directory does not hold ends the walk with FileNotFoundError.
\<close>

fun lookup_path :: "node \<Rightarrow> node list \<Rightarrow> string list \<Rightarrow> error + node" where
  "lookup_path cur ups [] = Inr cur"
| "lookup_path (File b) ups (seg # segs) = Inl NotADirectoryError"
| "lookup_path (Dir es) ups (seg # segs) =
     (if seg = ''..'' then
        (case ups of
           [] \<Rightarrow> lookup_path (Dir es) [] segs
         | u # us \<Rightarrow> lookup_path u us segs)
      else if 255 < length seg then Inl OSError
      else (case map_of es seg of
              None \<Rightarrow> Inl FileNotFoundError
            | Some n \<Rightarrow> lookup_path n (Dir es # ups) segs))"

text \<open>
  What the operating system finds at an absolute path, as Python asks for it: a NUL in
  the path is refused before the system is asked (ValueError), a path of 4096 bytes or
  more by the system before it walks (OSError); otherwise the walk from the root decides.
\<close>

definition os_stat :: "node \<Rightarrow> string list \<Rightarrow> error + node" where
  "os_stat root parts =
     (if CHR 0x00 \<in> set (concat parts) then Inl ValueError
      else if 4096 \<le> length (path_str parts) then Inl OSError
      else lookup_path root [] parts)"

text \<open>
  \<^verbatim>\<open>path.read_bytes()\<close>, that is \<^verbatim>\<open>open(path, 'rb').read()\<close>: the bytes of a regular
  file, IsADirectoryError for a directory, and the failure of the lookup otherwise.
\<close>

definition read_bytes :: "node \<Rightarrow> string list \<Rightarrow> error + byte list" where
  "read_bytes root parts =
     (case os_stat root parts of
        Inl e \<Rightarrow> Inl e
      | Inr (Dir es) \<Rightarrow> Inl IsADirectoryError
      | Inr (File b) \<Rightarrow> Inr b)"

text \<open>\<^verbatim>\<open>os.path.isfile(path)\<close>: a regular file is found; any failure of the lookup is False.\<close>

definition os_isfile :: "node \<Rightarrow> string list \<Rightarrow> bool" where
  "os_isfile root parts = (case os_stat root parts of Inr (File b) \<Rightarrow> True | _ \<Rightarrow> False)"

subsection \<open>Decoding\<close>

text \<open>
  Python's strict UTF-8 decoder. \<open>utf8_first\<close> reads one code point from the front of the
  bytes: the well-formed sequences are those of the Unicode standard (no overlong forms,
  no surrogates, nothing above U+10FFFF).
\<close>

definition between :: "byte \<Rightarrow> byte \<Rightarrow> byte \<Rightarrow> bool" where
  "between lo hi b = (lo \<le> b \<and> b \<le> hi)"

fun utf8_first :: "byte list \<Rightarrow> (nat \<times> byte list) option" where
  "utf8_first [] = None"
| "utf8_first (b0 # bs) =
     (if b0 < 0x80 then Some (unat b0, bs)
      else if between 0xC2 0xDF b0 then
        (case bs of
           b1 # r \<Rightarrow>
             if between 0x80 0xBF b1
             then Some ((unat b0 - 0xC0) * 64 + (unat b1 - 0x80), r)
             else None
         | _ \<Rightarrow> None)
      else if between 0xE0 0xEF b0 then
        (case bs of
           b1 # b2 # r \<Rightarrow>
             if between (if b0 = 0xE0 then 0xA0 else 0x80) (if b0 = 0xED then 0x9F else 0xBF) b1
                \<and> between 0x80 0xBF b2
             then Some ((unat b0 - 0xE0) * 4096 + (unat b1 - 0x80) * 64 + (unat b2 - 0x80), r)
             else None
         | _ \<Rightarrow> None)
      else if between 0xF0 0xF4 b0 then
        (case bs of
           b1 # b2 # b3 # r \<Rightarrow>
             if between (if b0 = 0xF0 then 0x90 else 0x80) (if b0 = 0xF4 then 0x8F else 0xBF) b1
                \<and> between 0x80 0xBF b2 \<and> between 0x80 0xBF b3
             then Some ((unat b0 - 0xF0) * 262144 + (unat b1 - 0x80) * 4096
                        + (unat b2 - 0x80) * 64 + (unat b3 - 0x80), r)
             else None
         | _ \<Rightarrow> None)
      else None)"

function utf8_decode :: "byte list \<Rightarrow> error + pystr" where
  "utf8_decode bs =
     (if bs = [] then Inr []
      else (case utf8_first bs of
              None \<Rightarrow> Inl UnicodeDecodeError
            | Some (c, r) \<Rightarrow>
                (case utf8_decode r of Inl e \<Rightarrow> Inl e | Inr cs \<Rightarrow> Inr (c # cs))))"
  by pat_completeness auto
termination
  by (relation "measure length") (auto simp: neq_Nil_conv split: if_splits list.splits)

declare utf8_decode.simps [simp del]

text \<open>
  The codecs: \<^verbatim>\<open>'utf-8'\<close> with \<^verbatim>\<open>'strict'\<close> is the decoder above; every other encoding
  name or error policy is left to \<open>codec\<close>, Python's codec registry, a parameter.
\<close>

definition py_decode ::
  "(string \<Rightarrow> string \<Rightarrow> byte list \<Rightarrow> error + pystr) \<Rightarrow> string \<Rightarrow> string \<Rightarrow> byte list \<Rightarrow> error + pystr" where
  "py_decode codec encoding errors b =
     (if encoding = ''utf-8'' \<and> errors = ''strict'' then utf8_decode b else codec encoding errors b)"

text \<open>
  Reading in text mode translates line ends: \<^verbatim>\<open>\r\n\<close> and a lone \<^verbatim>\<open>\r\<close> become \<^verbatim>\<open>\n\<close>.
\<close>

fun universal_newlines :: "pystr \<Rightarrow> pystr" where
  "universal_newlines [] = []"
| "universal_newlines [c] = (if c = 13 then [10] else [c])"
| "universal_newlines (c # d # cs) =
     (if c = 13 \<and> d = 10 then 10 # universal_newlines cs
      else if c = 13 then 10 # universal_newlines (d # cs)
      else c # universal_newlines (d # cs))"

text \<open>
  \<^verbatim>\<open>with path.open('r', encoding=encoding, errors=errors) as f: data = f.read()\<close>:
  the file is opened first, then its bytes are decoded.
\<close>

definition read_text ::
  "(string \<Rightarrow> string \<Rightarrow> byte list \<Rightarrow> error + pystr) \<Rightarrow> node \<Rightarrow> string list \<Rightarrow> string \<Rightarrow> string
     \<Rightarrow> error + pystr" where
  "read_text codec root parts encoding errors =
     (case read_bytes root parts of
        Inl e \<Rightarrow> Inl e
      | Inr b \<Rightarrow>
          (case py_decode codec encoding errors b of
             Inl e \<Rightarrow> Inl e
           | Inr t \<Rightarrow> Inr (universal_newlines t)))"

subsection \<open>The package environment\<close>

text \<open>
  What the module finds around it: the file system with the place of the resource
  directory in it (\<^verbatim>\<open>_RESOURCE_BASE\<close>, which is also the template root of the
  \<^verbatim>\<open>PackageLoader\<close>), the codec registry, and the parser of the \<^verbatim>\<open>jinja\<close> environment
  (template name and source to a template, or TemplateSyntaxError).
\<close>

record 't package =
  fs_root :: node
  resource_base :: "string list"
  codec :: "string \<Rightarrow> string \<Rightarrow> byte list \<Rightarrow> error + pystr"
  jinja_compile :: "string \<Rightarrow> pystr \<Rightarrow> error + 't"

subsection \<open>Calls and their arguments\<close>

text \<open>
  The arguments of a call as the caller wrote them: the positional values, then the
  keyword items in their order. The values are strings.
\<close>

record pyargs =
  pos_vals :: "string list"
  kw_items :: "(string \<times> string) list"

text \<open>A call with positional arguments only, \<^verbatim>\<open>f(x, y)\<close>.\<close>

definition pos_args :: "string list \<Rightarrow> pyargs" where
  "pos_args xs = \<lparr>pos_vals = xs, kw_items = []\<rparr>"

text \<open>
  Binding the arguments to the parameters of a \<^verbatim>\<open>def\<close>, each with its default if it has
  one: positional values fill the parameters in order, a keyword fills its own. Too many
  positional values, a keyword for a parameter already filled, and a parameter left
  without value and default raise TypeError.
\<close>

fun fill_params :: "(string \<times> string option) list \<Rightarrow> string list \<Rightarrow> (string \<times> string) list
    \<Rightarrow> error + string list" where
  "fill_params [] [] kws = Inr []"
| "fill_params [] (v # vs) kws = Inl TypeError"
| "fill_params ((p, d) # ps) (v # vs) kws =
     (if p \<in> fst ` set kws then Inl TypeError
      else (case fill_params ps vs kws of
              Inl e \<Rightarrow> Inl e
            | Inr r \<Rightarrow> Inr (v # r)))"
| "fill_params ((p, d) # ps) [] kws =
     (case (case map_of kws p of Some v \<Rightarrow> Some v | None \<Rightarrow> d) of
        None \<Rightarrow> Inl TypeError
      | Some v \<Rightarrow>
          (case fill_params ps [] kws of
             Inl e \<Rightarrow> Inl e
           | Inr r \<Rightarrow> Inr (v # r)))"

text \<open>A keyword that names no parameter, or the same keyword twice, raises TypeError too.\<close>

definition bind_params :: "(string \<times> string option) list \<Rightarrow> pyargs \<Rightarrow> error + string list" where
  "bind_params params a =
     (if set (map fst (kw_items a)) \<subseteq> set (map fst params) \<and> distinct (map fst (kw_items a))
      then fill_params params (pos_vals a) (kw_items a)
      else Inl TypeError)"

subsection \<open>Least-recently-used caches\<close>

text \<open>
  The cache of \<^verbatim>\<open>functools.lru_cache\<close>: the entries, most recently used first, with the
  counters of \<^verbatim>\<open>cache_info()\<close>. The key is the argument tuple of the call as the caller
  wrote it, positional values and keyword items in order: \<^verbatim>\<open>f('a')\<close> and
  \<^verbatim>\<open>f(resourcename='a')\<close> have different keys.
\<close>

record ('k, 'v) lru =
  entries :: "('k \<times> 'v) list"
  hits :: nat
  misses :: nat

definition lru_empty :: "('k, 'v) lru" where
  "lru_empty = \<lparr>entries = [], hits = 0, misses = 0\<rparr>"

text \<open>A hit makes the entry the most recent.\<close>

definition lru_hit :: "('k, 'v) lru \<Rightarrow> 'k \<Rightarrow> 'v \<Rightarrow> ('k, 'v) lru" where
  "lru_hit c k v =
     c\<lparr>entries := (k, v) # filter (\<lambda>e. fst e \<noteq> k) (entries c), hits := hits c + 1\<rparr>"

text \<open>
  A miss counts, whatever the wrapped function does then. An exception leaves the
  entries as they were; a result is stored, the least recently used entry making room
  when \<open>maxsize\<close> entries are held.
\<close>

definition lru_miss :: "nat \<Rightarrow> ('k, 'v) lru \<Rightarrow> 'k \<Rightarrow> error + 'v \<Rightarrow> ('k, 'v) lru" where
  "lru_miss maxsize c k r =
     (case r of
        Inl e \<Rightarrow> c\<lparr>misses := misses c + 1\<rparr>
      | Inr v \<Rightarrow>
          c\<lparr>entries := (k, v) # (if maxsize \<le> length (entries c)
                                   then butlast (entries c) else entries c),
            misses := misses c + 1\<rparr>)"

text \<open>A call through the wrapper of a function \<open>f\<close> that has no state of its own.\<close>

definition lru_call ::
  "nat \<Rightarrow> ('k \<Rightarrow> error + 'v) \<Rightarrow> ('k, 'v) lru \<Rightarrow> 'k \<Rightarrow> (error + 'v) \<times> ('k, 'v) lru" where
  "lru_call maxsize f c k =
     (case map_of (entries c) k of
        Some v \<Rightarrow> (Inr v, lru_hit c k v)
      | None \<Rightarrow> (f k, lru_miss maxsize c k (f k)))"

subsection \<open>The template environment\<close>

text \<open>
  \<^verbatim>\<open>split_template_path\<close> of \<^verbatim>\<open>jinja2.loaders\<close>: a \<^verbatim>\<open>..\<close> among the segments is refused
  with TemplateNotFound; empty segments and \<^verbatim>\<open>.\<close> are dropped.
\<close>

definition split_template_path :: "string \<Rightarrow> error + string list" where
  "split_template_path template =
     (if ''..'' \<in> set (split_on CHR ''/'' template) then Inl TemplateNotFound
      else Inr (filter (\<lambda>seg. seg \<noteq> [] \<and> seg \<noteq> ''.'') (split_on CHR ''/'' template)))"

text \<open>
  The load of a template by \<^verbatim>\<open>PackageLoader(__package__, "resource")\<close>: the pieces of the
  name are joined to the template root, so the path stays below it; TemplateNotFound
  unless a regular file is there; its bytes are decoded as strict UTF-8 and the
  environment compiles the source.
\<close>

definition jinja_load :: "'t package \<Rightarrow> string \<Rightarrow> error + 't" where
  "jinja_load pkg template =
     (case split_template_path template of
        Inl e \<Rightarrow> Inl e
      | Inr pieces \<Rightarrow>
          if \<not> os_isfile (fs_root pkg) (resource_base pkg @ pieces) then Inl TemplateNotFound
          else (case read_bytes (fs_root pkg) (resource_base pkg @ pieces) of
                  Inl e \<Rightarrow> Inl e
                | Inr b \<Rightarrow>
                    (case utf8_decode b of
                       Inl e \<Rightarrow> Inl e
                     | Inr src \<Rightarrow> jinja_compile pkg template src)))"

text \<open>
  \<^verbatim>\<open>jinja.get_template(name)\<close>. The environment keeps the templates it has loaded in a
  least-recently-used cache of 400 entries, keyed by the name; a template in it is
  returned without a load, the files being unchanged. A failed load stores nothing.
  In this cache \<open>misses\<close> counts the loads; \<open>hits\<close> is of the model only.
\<close>

definition jinja_get_template :: "'t package \<Rightarrow> (string, 't) lru \<Rightarrow> string \<Rightarrow> (error + 't) \<times> (string, 't) lru" where
  "jinja_get_template pkg jc name = lru_call 400 (jinja_load pkg) jc name"

subsection \<open>The three resolvers\<close>

text \<open>
  The state of the module: the caches of the three decorated functions and the template
  cache of the \<^verbatim>\<open>jinja\<close> environment.
\<close>

record 't resolver =
  bytes_cache :: "(pyargs, byte list) lru"
  text_cache :: "(pyargs, pystr) lru"
  template_cache :: "(pyargs, 't) lru"
  jinja_cache :: "(string, 't) lru"

definition resolver_init :: "'t resolver" where
  "resolver_init =
     \<lparr>bytes_cache = lru_empty, text_cache = lru_empty, template_cache = lru_empty,
      jinja_cache = lru_empty\<rparr>"

text \<open>
  The function \<^verbatim>\<open>resource_bytes(resourcename)\<close> under its decorator, on the arguments of a
  call: \<^verbatim>\<open>rsc = _RESOURCE_BASE / _strip_resource(resourcename); return rsc.read_bytes()\<close>.
\<close>

definition resource_bytes_body :: "'t package \<Rightarrow> pyargs \<Rightarrow> error + byte list" where
  "resource_bytes_body pkg a =
     (case bind_params [(''resourcename'', None)] a of
        Inl e \<Rightarrow> Inl e
      | Inr vs \<Rightarrow>
          (case vs of
             [resourcename] \<Rightarrow>
               read_bytes (fs_root pkg) (joinpath (resource_base pkg) (strip_resource resourcename))
           | _ \<Rightarrow> Inl TypeError))"

text \<open>\<^verbatim>\<open>@lru_cache(64) def resource_bytes\<close>, called with any arguments.\<close>

definition resource_bytes_call :: "'t package \<Rightarrow> 't resolver \<Rightarrow> pyargs \<Rightarrow> (error + byte list) \<times> 't resolver" where
  "resource_bytes_call pkg s a =
     (case lru_call 64 (resource_bytes_body pkg) (bytes_cache s) a of
        (r, c) \<Rightarrow> (r, s\<lparr>bytes_cache := c\<rparr>))"

text \<open>The call \<^verbatim>\<open>resource_bytes(resourcename)\<close>.\<close>

definition resource_bytes :: "'t package \<Rightarrow> 't resolver \<Rightarrow> string \<Rightarrow> (error + byte list) \<times> 't resolver" where
  "resource_bytes pkg s resourcename = resource_bytes_call pkg s (pos_args [resourcename])"

text \<open>
  The function \<^verbatim>\<open>resource_text(resourcename, encoding='utf-8', errors='strict')\<close> under its
  decorator, on the arguments of a call.
\<close>

definition resource_text_body :: "'t package \<Rightarrow> pyargs \<Rightarrow> error + pystr" where
  "resource_text_body pkg a =
     (case bind_params [(''resourcename'', None), (''encoding'', Some ''utf-8''),
                        (''errors'', Some ''strict'')] a of
        Inl e \<Rightarrow> Inl e
      | Inr vs \<Rightarrow>
          (case vs of
             [resourcename, encoding, errors] \<Rightarrow>
               read_text (codec pkg) (fs_root pkg)
                 (joinpath (resource_base pkg) (strip_resource resourcename)) encoding errors
           | _ \<Rightarrow> Inl TypeError))"

text \<open>\<^verbatim>\<open>@lru_cache(64) def resource_text\<close>, called with any arguments.\<close>

definition resource_text_call :: "'t package \<Rightarrow> 't resolver \<Rightarrow> pyargs \<Rightarrow> (error + pystr) \<times> 't resolver" where
  "resource_text_call pkg s a =
     (case lru_call 64 (resource_text_body pkg) (text_cache s) a of
        (r, c) \<Rightarrow> (r, s\<lparr>text_cache := c\<rparr>))"

text \<open>
  The calls \<^verbatim>\<open>resource_text(n)\<close>, \<^verbatim>\<open>resource_text(n, e)\<close>, \<^verbatim>\<open>resource_text(n, e, r)\<close> and
  \<^verbatim>\<open>resource_text(n, errors=r)\<close>: an encoding or error policy that is \<open>None\<close> is left out
  of the call.
\<close>

definition text_args :: "string \<Rightarrow> string option \<Rightarrow> string option \<Rightarrow> pyargs" where
  "text_args resourcename encoding errors =
     (case encoding of
        Some e \<Rightarrow> pos_args (resourcename # e # (case errors of None \<Rightarrow> [] | Some r \<Rightarrow> [r]))
      | None \<Rightarrow>
          \<lparr>pos_vals = [resourcename],
           kw_items = (case errors of None \<Rightarrow> [] | Some r \<Rightarrow> [(''errors'', r)])\<rparr>)"

definition resource_text ::
  "'t package \<Rightarrow> 't resolver \<Rightarrow> string \<Rightarrow> string option \<Rightarrow> string option \<Rightarrow> (error + pystr) \<times> 't resolver" where
  "resource_text pkg s resourcename encoding errors =
     resource_text_call pkg s (text_args resourcename encoding errors)"

text \<open>
  The function \<^verbatim>\<open>resource_template(resourcename)\<close> under its decorator, on the arguments of
  a call and the cache of the environment:
  \<^verbatim>\<open>resourcename = _strip_resource(resourcename); return jinja.get_template(resourcename)\<close>.
\<close>

definition resource_template_body ::
  "'t package \<Rightarrow> (string, 't) lru \<Rightarrow> pyargs \<Rightarrow> (error + 't) \<times> (string, 't) lru" where
  "resource_template_body pkg jc a =
     (case bind_params [(''resourcename'', None)] a of
        Inl e \<Rightarrow> (Inl e, jc)
      | Inr vs \<Rightarrow>
          (case vs of
             [resourcename] \<Rightarrow> jinja_get_template pkg jc (strip_resource resourcename)
           | _ \<Rightarrow> (Inl TypeError, jc)))"

text \<open>
  \<^verbatim>\<open>@lru_cache(64) def resource_template\<close>, called with any arguments: the wrapper of
  \<open>lru_call\<close>, around a function that changes the cache of the environment.
\<close>

definition resource_template_call :: "'t package \<Rightarrow> 't resolver \<Rightarrow> pyargs \<Rightarrow> (error + 't) \<times> 't resolver" where
  "resource_template_call pkg s a =
     (case map_of (entries (template_cache s)) a of
        Some v \<Rightarrow> (Inr v, s\<lparr>template_cache := lru_hit (template_cache s) a v\<rparr>)
      | None \<Rightarrow>
          (case resource_template_body pkg (jinja_cache s) a of
             (r, jc) \<Rightarrow>
               (r, s\<lparr>template_cache := lru_miss 64 (template_cache s) a r, jinja_cache := jc\<rparr>)))"

text \<open>The call \<^verbatim>\<open>resource_template(resourcename)\<close>.\<close>

definition resource_template :: "'t package \<Rightarrow> 't resolver \<Rightarrow> string \<Rightarrow> (error + 't) \<times> 't resolver" where
  "resource_template pkg s resourcename = resource_template_call pkg s (pos_args [resourcename])"


subsection \<open>Histories of resolver calls\<close>

text \<open>
  The states the caches can be in are those that calls of the three resolvers, with any
  arguments, lead to from the empty caches of a fresh process.
\<close>

datatype call =
    CallBytes pyargs
  | CallText pyargs
  | CallTemplate pyargs

fun exec :: "'t package \<Rightarrow> 't resolver \<Rightarrow> call \<Rightarrow> 't resolver" where
  "exec pkg s (CallBytes a) = snd (resource_bytes_call pkg s a)"
| "exec pkg s (CallText a) = snd (resource_text_call pkg s a)"
| "exec pkg s (CallTemplate a) = snd (resource_template_call pkg s a)"

definition run :: "'t package \<Rightarrow> 't resolver \<Rightarrow> call list \<Rightarrow> 't resolver" where
  "run pkg s cs = foldl (exec pkg) s cs"

subsection \<open>What the caches hold\<close>

text \<open>
  A cache is coherent with a function \<open>f\<close> when every entry holds what \<open>f\<close> returns for
  its key. The files never change, so this is what a call has stored.
\<close>

definition lru_coherent :: "('k \<Rightarrow> error + 'v) \<Rightarrow> ('k, 'v) lru \<Rightarrow> bool" where
  "lru_coherent f c = (\<forall>(k, v) \<in> set (entries c). f k = Inr v)"

text \<open>What \<^verbatim>\<open>resource_template\<close> returns for a call when the template is loaded afresh.\<close>

definition resource_template_result :: "'t package \<Rightarrow> pyargs \<Rightarrow> error + 't" where
  "resource_template_result pkg a = fst (resource_template_body pkg lru_empty a)"

definition coherent :: "'t package \<Rightarrow> 't resolver \<Rightarrow> bool" where
  "coherent pkg s =
     (lru_coherent (resource_bytes_body pkg) (bytes_cache s)
      \<and> lru_coherent (resource_text_body pkg) (text_cache s)
      \<and> lru_coherent (resource_template_result pkg) (template_cache s)
      \<and> lru_coherent (jinja_load pkg) (jinja_cache s))"







section \<open>Package-wide global variables\<close>



text \<open>
  The file objects a program writes to: \<^verbatim>\<open>sys.stdout\<close>, \<^verbatim>\<open>sys.stderr\<close> and the files it
  has opened. A console holds what has been written to each.
\<close>

datatype channel = Stdout | Stderr | Handle nat


text \<open>
  The keyword arguments of \<^verbatim>\<open>print\<close>. \<^verbatim>\<open>file\<close> may be absent, \<^verbatim>\<open>None\<close> or a file
  object; for \<^verbatim>\<open>sep\<close> and \<^verbatim>\<open>end\<close>, absent and \<^verbatim>\<open>None\<close> mean the same, the default.
\<close>

datatype file_kw = NoFile | FileNone | FileObj channel







section \<open>Output destinations\<close>

subsection \<open>Classes, instances and attributes\<close>

text \<open>The five classes: \<^verbatim>\<open>_BaseOutputDestination\<close> and its four subclasses.\<close>

datatype cls = BaseOutputDestination | TextOutput | DirOutput | StdOutput | StringOutput

text \<open>
  The values that the attributes of a destination hold: a string, a file object, or an
  \<^verbatim>\<open>io.StringIO\<close> with its contents.
\<close>

datatype pyval = PyStr string | PyFile channel | PyStringIO string

text \<open>An instance: its class and its \<^verbatim>\<open>__dict__\<close>.\<close>

record pyobj =
  klass :: cls
  attrs :: "(string, pyval) pydict"

text \<open>
  What a class body defines under a name: a function (\<^verbatim>\<open>def\<close>), or a property made by
  \<^verbatim>\<open>@property\<close> from a getter alone; no property of this module has a setter.
\<close>

datatype member = Method | Property

fun class_dict :: "cls \<Rightarrow> string \<Rightarrow> member option" where
  "class_dict BaseOutputDestination n =
     (if n = ''open'' then Some Method else if n = ''stream'' then Some Property else None)"
| "class_dict TextOutput n = (if n = ''__init__'' then Some Method else None)"
| "class_dict DirOutput n = (if n = ''__init__'' \<or> n = ''open'' then Some Method else None)"
| "class_dict StdOutput n =
     (if n = ''open'' then Some Method else if n = ''stream'' then Some Property else None)"
| "class_dict StringOutput n =
     (if n = ''__init__'' then Some Method else if n = ''str'' then Some Property else None)"

text \<open>The method resolution order, \<^verbatim>\<open>object\<close> left out: the class, then its base.\<close>

fun mro :: "cls \<Rightarrow> cls list" where
  "mro BaseOutputDestination = [BaseOutputDestination]"
| "mro c = [c, BaseOutputDestination]"

fun lookup_mro :: "cls list \<Rightarrow> string \<Rightarrow> (cls \<times> member) option" where
  "lookup_mro [] n = None"
| "lookup_mro (c # cs) n =
     (case class_dict c n of Some m \<Rightarrow> Some (c, m) | None \<Rightarrow> lookup_mro cs n)"

text \<open>The first class of the resolution order that defines the name, with what it defines.\<close>

definition type_lookup :: "cls \<Rightarrow> string \<Rightarrow> (cls \<times> member) option" where
  "type_lookup c n = lookup_mro (mro c) n"

text \<open>
  \<^verbatim>\<open>self.n = v\<close>. A property found on the class takes the store: it is a data descriptor,
  and one without a setter raises AttributeError. Otherwise the value goes into the
  instance's \<^verbatim>\<open>__dict__\<close>.
\<close>

definition setattr :: "pyobj \<Rightarrow> string \<Rightarrow> pyval \<Rightarrow> error + pyobj" where
  "setattr self n v =
     (case type_lookup (klass self) n of
        Some (c, Property) \<Rightarrow> Inl AttributeError
      | _ \<Rightarrow> Inr (self\<lparr>attrs := dict_setitem (attrs self) n v\<rparr>))"

text \<open>
  The getters of the two \<^verbatim>\<open>stream\<close> properties: \<^verbatim>\<open>_BaseOutputDestination.stream\<close> raises
  NotImplementedError, \<^verbatim>\<open>StdOutput.stream\<close> returns \<^verbatim>\<open>sys.stdout\<close>.
\<close>

definition stream_getter :: "cls \<Rightarrow> error + pyval" where
  "stream_getter c = (if c = StdOutput then Inr (PyFile Stdout) else Inl NotImplementedError)"

text \<open>
  \<^verbatim>\<open>self.stream\<close>, read: the property of the class runs, whatever the instance holds;
  without one the instance's \<^verbatim>\<open>__dict__\<close> is read.
\<close>

definition get_stream :: "pyobj \<Rightarrow> error + pyval" where
  "get_stream self =
     (case type_lookup (klass self) ''stream'' of
        Some (c, Property) \<Rightarrow> stream_getter c
      | _ \<Rightarrow> (case map_of (attrs self) ''stream'' of
                None \<Rightarrow> Inl AttributeError
              | Some v \<Rightarrow> Inr v))"

text \<open>\<^verbatim>\<open>self.dir\<close>, read: no class defines \<^verbatim>\<open>dir\<close>, so the instance's \<^verbatim>\<open>__dict__\<close> is read.\<close>

definition get_dir :: "pyobj \<Rightarrow> error + pyval" where
  "get_dir self =
     (case map_of (attrs self) ''dir'' of
        None \<Rightarrow> Inl AttributeError
      | Some v \<Rightarrow> Inr v)"

text \<open>A new object of a class, before \<^verbatim>\<open>__init__\<close> runs.\<close>

definition new_instance :: "cls \<Rightarrow> pyobj" where
  "new_instance c = \<lparr>klass = c, attrs = []\<rparr>"

subsection \<open>Files\<close>

text \<open>
  The file system that the destinations write to: the content of each file, the error
  with which the operating system refuses to open a path, if it does (FileNotFoundError
  when the directory is missing, PermissionError without the right), and the files
  opened so far; the handle of an opened file is its position in that list.
\<close>

datatype open_mode = ModeR | ModeW | ModeA | ModeX

record filesys =
  files :: "string \<rightharpoonup> byte list"
  refusal :: "string \<Rightarrow> error option"
  handles :: "(string \<times> open_mode) list"

text \<open>
  The mode string of \<^verbatim>\<open>open\<close>: characters of \<^verbatim>\<open>rwaxbt+\<close>, none twice, exactly one of
  \<^verbatim>\<open>r\<close>, \<^verbatim>\<open>w\<close>, \<^verbatim>\<open>a\<close>, \<^verbatim>\<open>x\<close>, and not both \<^verbatim>\<open>b\<close> and \<^verbatim>\<open>t\<close>.
\<close>

definition parse_mode :: "string \<Rightarrow> open_mode option" where
  "parse_mode m =
     (if set m \<subseteq> set ''rwaxbt+'' \<and> distinct m \<and> \<not> (CHR ''b'' \<in> set m \<and> CHR ''t'' \<in> set m)
      then (case filter (\<lambda>c. c \<in> set ''rwax'') m of
              [c] \<Rightarrow> Some (if c = CHR ''r'' then ModeR else if c = CHR ''w'' then ModeW
                           else if c = CHR ''a'' then ModeA else ModeX)
            | _ \<Rightarrow> None)
      else None)"

text \<open>
  The builtin \<^verbatim>\<open>open(path, *args)\<close>, with the mode the first of \<open>args\<close> and \<^verbatim>\<open>'r'\<close> when
  there is none. \<^verbatim>\<open>w\<close> and \<^verbatim>\<open>x\<close> leave an empty file, \<^verbatim>\<open>a\<close> creates a missing one,
  \<^verbatim>\<open>r\<close> needs the file and \<^verbatim>\<open>x\<close> needs it absent. Buffering, encoding and the other
  arguments of \<^verbatim>\<open>open\<close> are not modelled.
\<close>

definition py_open :: "filesys \<Rightarrow> string \<Rightarrow> pyval list \<Rightarrow> (error + channel) \<times> filesys" where
  "py_open fs path args =
     (case (case args of [] \<Rightarrow> Inr ''r'' | PyStr m # _ \<Rightarrow> Inr m | _ \<Rightarrow> Inl TypeError) of
        Inl e \<Rightarrow> (Inl e, fs)
      | Inr m \<Rightarrow>
          (case parse_mode m of
             None \<Rightarrow> (Inl ValueError, fs)
           | Some mode \<Rightarrow>
               (case refusal fs path of
                  Some e \<Rightarrow> (Inl e, fs)
                | None \<Rightarrow>
                    if mode = ModeR \<and> files fs path = None then (Inl FileNotFoundError, fs)
                    else if mode = ModeX \<and> files fs path \<noteq> None then (Inl FileExistsError, fs)
                    else (Inr (Handle (length (handles fs))),
                          fs\<lparr>files := (files fs)
                               (path \<mapsto> (if mode = ModeW \<or> mode = ModeX then []
                                          else (case files fs path of None \<Rightarrow> [] | Some b \<Rightarrow> b))),
                             handles := handles fs @ [(path, mode)]\<rparr>))))"

text \<open>
  \<^verbatim>\<open>os.path.join(a, p)\<close> for two strings, as \<^verbatim>\<open>posixpath\<close> has it: an absolute \<open>p\<close>
  replaces \<open>a\<close>; otherwise \<open>p\<close> follows \<open>a\<close>, after a \<^verbatim>\<open>/\<close> unless \<open>a\<close> is empty or ends
  in one.
\<close>

definition os_path_join :: "string \<Rightarrow> string \<Rightarrow> string" where
  "os_path_join a p =
     (if startswith p ''/'' then p
      else if a = [] \<or> last a = CHR ''/'' then a @ p
      else a @ ''/'' @ p)"

subsection \<open>The destination classes\<close>

text \<open>\<^verbatim>\<open>_BaseOutputDestination.open(self, *args, **kwargs)\<close>: \<^verbatim>\<open>raise NotImplementedError\<close>.\<close>

definition BaseOutputDestination_open :: "pyobj \<Rightarrow> pyval list \<Rightarrow> error + pyobj" where
  "BaseOutputDestination_open self args = Inl NotImplementedError"

text \<open>\<^verbatim>\<open>TextOutput.__init__(self, filehandle)\<close>: \<^verbatim>\<open>self.stream = filehandle\<close>.\<close>

definition TextOutput_init :: "pyobj \<Rightarrow> pyval \<Rightarrow> error + pyobj" where
  "TextOutput_init self filehandle = setattr self ''stream'' filehandle"

text \<open>The call \<^verbatim>\<open>TextOutput(filehandle)\<close>: a new object, then \<^verbatim>\<open>__init__\<close>.\<close>

definition TextOutput_new :: "pyval \<Rightarrow> error + pyobj" where
  "TextOutput_new filehandle = TextOutput_init (new_instance TextOutput) filehandle"

text \<open>\<^verbatim>\<open>DirOutput.__init__(self, dir)\<close>: \<^verbatim>\<open>self.dir = dir\<close>.\<close>

definition DirOutput_init :: "pyobj \<Rightarrow> pyval \<Rightarrow> error + pyobj" where
  "DirOutput_init self dir = setattr self ''dir'' dir"

definition DirOutput_new :: "pyval \<Rightarrow> error + pyobj" where
  "DirOutput_new dir = DirOutput_init (new_instance DirOutput) dir"

text \<open>
  \<^verbatim>\<open>DirOutput.open(self, filename, *args, **kwargs)\<close>:
  \<^verbatim>\<open>fn = os.path.join(self.dir, filename); return TextOutput(open(fn, *args, **kwargs))\<close>.
  \<open>args\<close> are the positional arguments of the call, the file name first; a call without
  one, or a name that is no string, raises TypeError. Keyword arguments are not modelled.
\<close>

definition DirOutput_open :: "pyobj \<Rightarrow> pyval list \<Rightarrow> filesys \<Rightarrow> (error + pyobj) \<times> filesys" where
  "DirOutput_open self args fs =
     (case args of
        [] \<Rightarrow> (Inl TypeError, fs)
      | filename # rest \<Rightarrow>
          (case get_dir self of
             Inl e \<Rightarrow> (Inl e, fs)
           | Inr d \<Rightarrow>
               (case (d, filename) of
                  (PyStr a, PyStr p) \<Rightarrow>
                    (case py_open fs (os_path_join a p) rest of
                       (Inl e, fs') \<Rightarrow> (Inl e, fs')
                     | (Inr h, fs') \<Rightarrow> (TextOutput_new (PyFile h), fs'))
                | _ \<Rightarrow> (Inl TypeError, fs))))"

text \<open>\<^verbatim>\<open>StdOutput.open(self, *args, **kwargs)\<close>: \<^verbatim>\<open>return self\<close>.\<close>

definition StdOutput_open :: "pyobj \<Rightarrow> pyval list \<Rightarrow> error + pyobj" where
  "StdOutput_open self args = Inr self"

text \<open>\<^verbatim>\<open>StdOutput()\<close>: the class has no \<^verbatim>\<open>__init__\<close> of its own.\<close>

definition StdOutput_new :: pyobj where
  "StdOutput_new = new_instance StdOutput"

text \<open>\<^verbatim>\<open>StringOutput.__init__(self)\<close>: \<^verbatim>\<open>self.stream = io.StringIO()\<close>.\<close>

definition StringOutput_init :: "pyobj \<Rightarrow> error + pyobj" where
  "StringOutput_init self = setattr self ''stream'' (PyStringIO [])"

definition StringOutput_new :: "error + pyobj" where
  "StringOutput_new = StringOutput_init (new_instance StringOutput)"

text \<open>The property \<^verbatim>\<open>StringOutput.str\<close>: \<^verbatim>\<open>return self.stream.getvalue()\<close>.\<close>

definition StringOutput_str :: "pyobj \<Rightarrow> error + string" where
  "StringOutput_str self =
     (case get_stream self of
        Inl e \<Rightarrow> Inl e
      | Inr (PyStringIO buf) \<Rightarrow> Inr buf
      | Inr _ \<Rightarrow> Inl AttributeError)"

text \<open>
  The call \<^verbatim>\<open>self.open(*args)\<close>: the \<^verbatim>\<open>open\<close> of the first class in the resolution
  order that defines one. No \<^verbatim>\<open>__init__\<close> stores an attribute named \<^verbatim>\<open>open\<close>, so
  the instance's \<^verbatim>\<open>__dict__\<close> plays no part.
\<close>

definition call_open :: "pyobj \<Rightarrow> pyval list \<Rightarrow> filesys \<Rightarrow> (error + pyobj) \<times> filesys" where
  "call_open self args fs =
     (case type_lookup (klass self) ''open'' of
        None \<Rightarrow> (Inl AttributeError, fs)
      | Some (c, m) \<Rightarrow>
          if c = DirOutput then DirOutput_open self args fs
          else if c = StdOutput then (StdOutput_open self args, fs)
          else (BaseOutputDestination_open self args, fs))"

section \<open>A small package and file system\<close>

text \<open>
  An example: a file system with the package in \<^verbatim>\<open>/pkg\<close>, its resources in
  \<^verbatim>\<open>/pkg/resource\<close> (the directory of one output with its documentation and a template,
  and one whose documentation is not UTF-8), and a file outside the package. The codec
  registry knows no other encoding, and a template is its source.
\<close>

definition example_root :: node where
  "example_root =
     Dir [(''pkg'',
           Dir [(''resource'',
                 Dir [(''html'',
                       Dir [(''README.rst'', File [0x68, 0x69, 0x0A]),
                            (''page.html'', File [0x7B, 0x7B, 0x78, 0x7D, 0x7D])]),
                      (''bad'', Dir [(''README.rst'', File [0xFF])])])]),
          (''etc'', Dir [(''hostname'', File [0x62, 0x6F, 0x78])])]"

definition example_package :: "pystr package" where
  "example_package =
     \<lparr>fs_root = example_root,
      resource_base = [''pkg'', ''resource''],
      codec = (\<lambda>encoding errors b. Inl CodecError),
      jinja_compile = (\<lambda>name src. Inr src)\<rparr>"

text \<open>An empty file system in which every path may be opened.\<close>

definition example_fs :: filesys where
  "example_fs = \<lparr>files = Map.empty, refusal = (\<lambda>p. None), handles = []\<rparr>"

section \<open>Properties of the registry\<close>

lemma map_of_dict_setitem: "map_of (dict_setitem d k v) = (map_of d)(k \<mapsto> v)"
  by (induction d k v rule: dict_setitem.induct) auto

lemma dict_keys_setitem: "set (dict_keys (dict_setitem d k v)) = insert k (set (dict_keys d))"
  by (induction d k v rule: dict_setitem.induct) (auto simp: dict_keys_def)

lemma dict_getitem_absent: "k \<notin> set (dict_keys d) \<Longrightarrow> dict_getitem d k = Inl KeyError"
  by (simp add: dict_getitem_def dict_keys_def map_of_eq_None_iff [THEN iffD2])

text \<open>
  Claim C6. For a class \<open>C\<close> whose \<open>outputname\<close> attribute is the string \<open>s\<close>,
  \<open>register\<close> stores \<open>C\<close> under \<open>s\<close> and returns \<open>C\<close> itself; in the registry after the
  call \<open>output s\<close> returns \<open>C\<close>, \<open>s\<close> is among the enumerated names, and \<open>output s'\<close>
  raises KeyError for every name \<open>s'\<close> that is not registered.
\<close>

theorem register_then_output:
  assumes "outputname C = Some s"
  shows "\<exists>outputs'. register outputs C = Inr (C, outputs')
           \<and> outputs' = dict_setitem outputs s C
           \<and> Outputs_output outputs' s = Inr C
           \<and> s \<in> set (Outputs_iter outputs')
           \<and> (\<forall>s'. s' \<notin> set (Outputs_iter outputs') \<longrightarrow> Outputs_output outputs' s' = Inl KeyError)"
proof -
  let ?d = "dict_setitem outputs s C"
  have r: "register outputs C = Inr (C, ?d)"
    using assms by (simp add: register_def)
  have o: "Outputs_output ?d s = Inr C"
    by (simp add: Outputs_output_def dict_getitem_def map_of_dict_setitem)
  have i: "s \<in> set (Outputs_iter ?d)"
    by (simp add: Outputs_iter_def dict_keys_setitem)
  have m: "\<forall>s'. s' \<notin> set (Outputs_iter ?d) \<longrightarrow> Outputs_output ?d s' = Inl KeyError"
    by (simp add: Outputs_iter_def Outputs_output_def dict_getitem_absent)
  from r o i m show ?thesis by blast
qed

theorem register_then_output_witness:
  "outputname \<lparr>outputname = Some ''html'', body = (1::nat)\<rparr> = Some ''html''
   \<and> register Outputs_init \<lparr>outputname = Some ''html'', body = (1::nat)\<rparr>
       = Inr (\<lparr>outputname = Some ''html'', body = 1\<rparr>, [(''html'', \<lparr>outputname = Some ''html'', body = 1\<rparr>)])
   \<and> Outputs_output [(''html'', \<lparr>outputname = Some ''html'', body = (1::nat)\<rparr>)] ''html''
       = Inr \<lparr>outputname = Some ''html'', body = 1\<rparr>
   \<and> ''html'' \<in> set (Outputs_iter [(''html'', \<lparr>outputname = Some ''html'', body = (1::nat)\<rparr>)])
   \<and> Outputs_output [(''html'', \<lparr>outputname = Some ''html'', body = (1::nat)\<rparr>)] ''missing'' = Inl KeyError"
  using register_then_output [of "\<lparr>outputname = Some ''html'', body = (1::nat)\<rparr>" "''html''" Outputs_init]
  by (simp add: Outputs_init_def Outputs_iter_def dict_keys_def)

section \<open>Properties of the caches\<close>

lemma lru_coherent_empty: "lru_coherent f lru_empty"
  by (simp add: lru_coherent_def lru_empty_def)

lemma lru_hit_coherent:
  "lru_coherent f c \<Longrightarrow> map_of (entries c) k = Some v \<Longrightarrow> lru_coherent f (lru_hit c k v)"
  by (auto simp: lru_coherent_def lru_hit_def dest!: map_of_SomeD)

lemma lru_miss_coherent: "lru_coherent f c \<Longrightarrow> lru_coherent f (lru_miss m c k (f k))"
  by (auto simp: lru_coherent_def lru_miss_def split: sum.splits dest: in_set_butlastD)

text \<open>Through a coherent cache a call returns what the wrapped function returns.\<close>

lemma lru_call_result: "lru_coherent f c \<Longrightarrow> fst (lru_call m f c k) = f k"
proof (cases "map_of (entries c) k")
  case None
  then show ?thesis by (simp add: lru_call_def)
next
  case (Some v)
  assume "lru_coherent f c"
  with map_of_SomeD [OF Some] have "f k = Inr v" by (auto simp: lru_coherent_def)
  with Some show ?thesis by (simp add: lru_call_def)
qed

lemma lru_call_coherent: "lru_coherent f c \<Longrightarrow> lru_coherent f (snd (lru_call m f c k))"
  by (cases "map_of (entries c) k") (simp_all add: lru_call_def lru_hit_coherent lru_miss_coherent)






subsection \<open>How long an entry stays\<close>











section \<open>Properties of the resolvers\<close>

subsection \<open>Names and arguments\<close>

lemma strip_resource_prefixed: "strip_resource (RSC @ n) = n"
  by (simp add: strip_resource_def startswith_def)

lemma strip_resource_plain: "\<not> startswith n RSC \<Longrightarrow> strip_resource n = n"
  by (simp add: strip_resource_def)

lemma RSC_neq: "RSC @ n \<noteq> n"
  by (simp add: RSC_def)



lemma resource_bytes_body_pos:
  "resource_bytes_body pkg (pos_args [n])
     = read_bytes (fs_root pkg) (joinpath (resource_base pkg) (strip_resource n))"
  by (simp add: resource_bytes_body_def bind_params_def pos_args_def)

lemma resource_text_body_args:
  "resource_text_body pkg (text_args n encoding errors)
     = read_text (codec pkg) (fs_root pkg) (joinpath (resource_base pkg) (strip_resource n))
         (case encoding of None \<Rightarrow> ''utf-8'' | Some e \<Rightarrow> e)
         (case errors of None \<Rightarrow> ''strict'' | Some r \<Rightarrow> r)"
  by (simp add: resource_text_body_def bind_params_def text_args_def pos_args_def
      split: option.splits)

subsection \<open>The template resolver and the cache of the environment\<close>

lemma resource_template_body_result:
  "lru_coherent (jinja_load pkg) jc
     \<Longrightarrow> fst (resource_template_body pkg jc a) = resource_template_result pkg a"
  by (simp add: resource_template_result_def resource_template_body_def jinja_get_template_def
      lru_call_result lru_coherent_empty split: sum.splits list.splits)

lemma resource_template_body_coherent:
  "lru_coherent (jinja_load pkg) jc
     \<Longrightarrow> lru_coherent (jinja_load pkg) (snd (resource_template_body pkg jc a))"
  by (simp add: resource_template_body_def jinja_get_template_def lru_call_coherent
      split: sum.splits list.splits)

lemma resource_template_result_pos:
  "resource_template_result pkg (pos_args [n]) = jinja_load pkg (strip_resource n)"
  by (simp add: resource_template_result_def resource_template_body_def bind_params_def
      pos_args_def jinja_get_template_def lru_call_result lru_coherent_empty)

text \<open>
  With a coherent cache of the environment, \<^verbatim>\<open>resource_template\<close> is a call through the
  wrapper of the function that loads afresh.
\<close>

lemma resource_template_call_lru:
  assumes "lru_coherent (jinja_load pkg) (jinja_cache s)"
  shows "fst (resource_template_call pkg s a)
           = fst (lru_call 64 (resource_template_result pkg) (template_cache s) a)
       \<and> template_cache (snd (resource_template_call pkg s a))
           = snd (lru_call 64 (resource_template_result pkg) (template_cache s) a)"
  using resource_template_body_result [OF assms, of a]
  by (cases "map_of (entries (template_cache s)) a")
     (simp_all add: resource_template_call_def lru_call_def case_prod_unfold)

subsection \<open>The caches stay coherent with the files\<close>

lemma coherent_init: "coherent pkg resolver_init"
  by (simp add: coherent_def resolver_init_def lru_coherent_empty)

lemma resource_bytes_call_coherent:
  "coherent pkg s \<Longrightarrow> coherent pkg (snd (resource_bytes_call pkg s a))"
  using lru_call_coherent [of "resource_bytes_body pkg" "bytes_cache s" 64 a]
  by (simp add: coherent_def resource_bytes_call_def case_prod_unfold)

lemma resource_text_call_coherent:
  "coherent pkg s \<Longrightarrow> coherent pkg (snd (resource_text_call pkg s a))"
  using lru_call_coherent [of "resource_text_body pkg" "text_cache s" 64 a]
  by (simp add: coherent_def resource_text_call_def case_prod_unfold)

lemma resource_template_call_coherent:
  assumes "coherent pkg s"
  shows "coherent pkg (snd (resource_template_call pkg s a))"
proof -
  from assms have j: "lru_coherent (jinja_load pkg) (jinja_cache s)"
    and t: "lru_coherent (resource_template_result pkg) (template_cache s)"
    by (simp_all add: coherent_def)
  have "lru_coherent (resource_template_result pkg)
          (template_cache (snd (resource_template_call pkg s a)))"
    using resource_template_call_lru [OF j, of a] lru_call_coherent [OF t, of 64 a] by simp
  moreover have "lru_coherent (jinja_load pkg) (jinja_cache (snd (resource_template_call pkg s a)))"
    using j resource_template_body_coherent [OF j, of a]
    by (cases "map_of (entries (template_cache s)) a")
       (simp_all add: resource_template_call_def case_prod_unfold)
  moreover have "bytes_cache (snd (resource_template_call pkg s a)) = bytes_cache s"
    "text_cache (snd (resource_template_call pkg s a)) = text_cache s"
    by (cases "map_of (entries (template_cache s)) a";
        simp add: resource_template_call_def case_prod_unfold)+
  ultimately show ?thesis using assms by (simp add: coherent_def)
qed

lemma exec_coherent: "coherent pkg s \<Longrightarrow> coherent pkg (exec pkg s c)"
  by (cases c)
     (simp_all add: resource_bytes_call_coherent resource_text_call_coherent
       resource_template_call_coherent)

lemma run_coherent: "coherent pkg s \<Longrightarrow> coherent pkg (run pkg s cs)"
  unfolding run_def by (induction cs arbitrary: s) (simp_all add: exec_coherent)

lemma run_init_coherent: "coherent pkg (run pkg resolver_init cs)"
  by (simp add: run_coherent coherent_init)

lemma resource_bytes_call_result:
  "coherent pkg s \<Longrightarrow> fst (resource_bytes_call pkg s a) = resource_bytes_body pkg a"
  using lru_call_result [of "resource_bytes_body pkg" "bytes_cache s" 64 a]
  by (simp add: coherent_def resource_bytes_call_def case_prod_unfold)

lemma resource_text_call_result:
  "coherent pkg s \<Longrightarrow> fst (resource_text_call pkg s a) = resource_text_body pkg a"
  using lru_call_result [of "resource_text_body pkg" "text_cache s" 64 a]
  by (simp add: coherent_def resource_text_call_def case_prod_unfold)

lemma resource_template_call_result:
  "coherent pkg s \<Longrightarrow> fst (resource_template_call pkg s a) = resource_template_result pkg a"
  using resource_template_call_lru [of pkg s a]
    lru_call_result [of "resource_template_result pkg" "template_cache s" 64 a]
  by (simp add: coherent_def)

lemma resource_bytes_result:
  "coherent pkg s \<Longrightarrow> fst (resource_bytes pkg s n)
     = read_bytes (fs_root pkg) (joinpath (resource_base pkg) (strip_resource n))"
  by (simp add: resource_bytes_def resource_bytes_call_result resource_bytes_body_pos)

lemma resource_text_result:
  "coherent pkg s \<Longrightarrow> fst (resource_text pkg s n encoding errors)
     = read_text (codec pkg) (fs_root pkg) (joinpath (resource_base pkg) (strip_resource n))
         (case encoding of None \<Rightarrow> ''utf-8'' | Some e \<Rightarrow> e)
         (case errors of None \<Rightarrow> ''strict'' | Some r \<Rightarrow> r)"
  by (simp add: resource_text_def resource_text_call_result resource_text_body_args)

lemma resource_template_result:
  "coherent pkg s \<Longrightarrow> fst (resource_template pkg s n) = jinja_load pkg (strip_resource n)"
  by (simp add: resource_template_def resource_template_call_result resource_template_result_pos)

subsection \<open>Each cache on its own\<close>












subsection \<open>Two calls with different arguments, and one call repeated\<close>











subsection \<open>Names that lead to no entry\<close>




text \<open>The definitions that evaluate a call in the example.\<close>

lemmas example_defs =
  resource_bytes_def resource_bytes_call_def resource_bytes_body_def
  resource_text_def resource_text_call_def resource_text_body_def text_args_def
  resource_template_def resource_template_call_def resource_template_body_def
  jinja_get_template_def jinja_load_def split_template_path_def
  bind_params_def pos_args_def lru_call_def lru_hit_def lru_miss_def lru_empty_def
  resolver_init_def run_def strip_resource_def startswith_def RSC_def
  joinpath_def path_parts_def path_str_def os_stat_def os_isfile_def read_bytes_def read_text_def
  py_decode_def utf8_decode.simps between_def example_package_def example_root_def

section \<open>The claims about the resolvers\<close>

text \<open>
  Claim C4, as the code has it. For a name \<open>n\<close> that does not itself start with
  \<^verbatim>\<open>resource/\<close>, resolving \<open>n\<close> and resolving \<open>RSC @ n\<close> through the same operation, after
  any histories of calls, give the same result: the same bytes, the same text under the
  same encoding and error policy, the same template, or the same failure.
\<close>

theorem prefixed_name_same_result:
  assumes "\<not> startswith n RSC"
  shows "fst (resource_bytes pkg (run pkg resolver_init cs) n)
           = fst (resource_bytes pkg (run pkg resolver_init cs') (RSC @ n))
       \<and> fst (resource_text pkg (run pkg resolver_init cs) n encoding errors)
           = fst (resource_text pkg (run pkg resolver_init cs') (RSC @ n) encoding errors)
       \<and> fst (resource_template pkg (run pkg resolver_init cs) n)
           = fst (resource_template pkg (run pkg resolver_init cs') (RSC @ n))"
  using assms
  by (simp add: resource_bytes_result resource_text_result resource_template_result
      run_init_coherent strip_resource_prefixed strip_resource_plain)

theorem prefixed_name_same_result_witness:
  "\<not> startswith ''html/README.rst'' RSC
   \<and> fst (resource_bytes example_package (run example_package resolver_init []) ''html/README.rst'')
       = Inr [0x68, 0x69, 0x0A]
   \<and> fst (resource_bytes example_package
            (run example_package resolver_init [CallBytes (pos_args [''html/README.rst''])])
            (RSC @ ''html/README.rst''))
       = Inr [0x68, 0x69, 0x0A]"
proof -
  have a: "\<not> startswith ''html/README.rst'' RSC" by (simp add: startswith_def RSC_def)
  have b: "fst (resource_bytes example_package (run example_package resolver_init [])
             ''html/README.rst'') = Inr [0x68, 0x69, 0x0A]"
    by (simp add: example_defs)
  from prefixed_name_same_result [OF a, THEN conjunct1, of example_package "[]"
      "[CallBytes (pos_args [''html/README.rst''])]"] a b
  show ?thesis by simp
qed

text \<open>
  The name \<^verbatim>\<open>resource/html/README.rst\<close>, the one \<^verbatim>\<open>docs('html')\<close> resolves, resolves; with
  the prefix once more in front it is looked up under \<^verbatim>\<open>resource/\<close> inside the bundle, and
  is not found.
\<close>

theorem doubly_prefixed_name_counterexample:
  "fst (resource_bytes example_package resolver_init ''resource/html/README.rst'')
     = Inr [0x68, 0x69, 0x0A]
   \<and> fst (resource_bytes example_package resolver_init (RSC @ ''resource/html/README.rst''))
       = Inl FileNotFoundError"
  by (simp add: example_defs)




section \<open>The claims about \<^verbatim>\<open>docs\<close>\<close>








section \<open>The claim about the cache entries\<close>




section \<open>The claim about diagnostics\<close>



section \<open>The claims about output destinations\<close>

text \<open>
  Every class finds \<^verbatim>\<open>stream\<close> as a property: its own for \<^verbatim>\<open>StdOutput\<close>, the one of
  \<^verbatim>\<open>_BaseOutputDestination\<close> for the others. So no instance can be given a \<^verbatim>\<open>stream\<close>.
\<close>

lemma type_lookup_stream_property: "\<exists>c. type_lookup k ''stream'' = Some (c, Property)"
  by (cases k) (simp_all add: type_lookup_def)

lemma setattr_stream_raises: "setattr self ''stream'' v = Inl AttributeError"
  using type_lookup_stream_property [of "klass self"] by (auto simp: setattr_def)

lemma TextOutput_new_raises: "TextOutput_new filehandle = Inl AttributeError"
  by (simp add: TextOutput_new_def TextOutput_init_def setattr_stream_raises)

text \<open>Whatever the directory, the arguments and the file system, \<^verbatim>\<open>DirOutput.open\<close> raises.\<close>

lemma DirOutput_open_never_returns: "isl (fst (DirOutput_open self args fs))"
  by (auto simp: DirOutput_open_def TextOutput_new_raises
      split: list.splits sum.splits pyval.splits prod.splits)

text \<open>
  Claim C1, on the code. \<^verbatim>\<open>DirOutput('out').open('x.txt', 'w')\<close> in an empty file system
  that allows every open: the file \<^verbatim>\<open>out/x.txt\<close> is opened, which leaves it empty and its
  handle open, and then \<^verbatim>\<open>TextOutput(...)\<close> raises AttributeError, since \<^verbatim>\<open>self.stream = filehandle\<close>
  meets the property \<^verbatim>\<open>stream\<close> of the base class, which has no setter. No
  destination is returned to write to.
\<close>

theorem DirOutput_open_raises:
  "DirOutput_new (PyStr ''out'') = Inr \<lparr>klass = DirOutput, attrs = [(''dir'', PyStr ''out'')]\<rparr>
   \<and> fst (call_open \<lparr>klass = DirOutput, attrs = [(''dir'', PyStr ''out'')]\<rparr>
             [PyStr ''x.txt'', PyStr ''w''] example_fs) = Inl AttributeError
   \<and> files (snd (call_open \<lparr>klass = DirOutput, attrs = [(''dir'', PyStr ''out'')]\<rparr>
                    [PyStr ''x.txt'', PyStr ''w''] example_fs)) ''out/x.txt'' = Some []
   \<and> handles (snd (call_open \<lparr>klass = DirOutput, attrs = [(''dir'', PyStr ''out'')]\<rparr>
                    [PyStr ''x.txt'', PyStr ''w''] example_fs)) = [(''out/x.txt'', ModeW)]"
  by (simp add: DirOutput_new_def DirOutput_init_def setattr_def type_lookup_def new_instance_def
      call_open_def DirOutput_open_def get_dir_def os_path_join_def startswith_def py_open_def
      parse_mode_def example_fs_def TextOutput_new_raises)

text \<open>
  Claim C2, on the code. \<^verbatim>\<open>StringOutput()\<close> raises AttributeError: its \<^verbatim>\<open>__init__\<close> stores
  the new \<^verbatim>\<open>io.StringIO\<close> into \<^verbatim>\<open>self.stream\<close>, the property without a setter. There is
  no freshly constructed in-memory destination to write to.
\<close>

theorem StringOutput_new_raises: "StringOutput_new = Inl AttributeError"
  by (simp add: StringOutput_new_def StringOutput_init_def setattr_stream_raises)

text \<open>
  Claim C9, as the code has it. With any arguments and in any file system, \<^verbatim>\<open>open\<close> on
  a \<^verbatim>\<open>TextOutput\<close> raises NotImplementedError, the \<^verbatim>\<open>open\<close> of the base class, and changes
  nothing; \<^verbatim>\<open>open\<close> on a \<^verbatim>\<open>StdOutput\<close> does not fail: it returns the destination itself.
\<close>

theorem open_unsupported_or_self:
  "call_open \<lparr>klass = TextOutput, attrs = a\<rparr> args fs = (Inl NotImplementedError, fs)
   \<and> call_open \<lparr>klass = StdOutput, attrs = a\<rparr> args fs
       = (Inr \<lparr>klass = StdOutput, attrs = a\<rparr>, fs)"
  by (simp add: call_open_def type_lookup_def BaseOutputDestination_open_def StdOutput_open_def)

text \<open>\<^verbatim>\<open>StdOutput().open('x.txt', 'w')\<close> succeeds.\<close>

theorem StdOutput_open_counterexample:
  "fst (call_open StdOutput_new [PyStr ''x.txt'', PyStr ''w''] example_fs) = Inr StdOutput_new"
  by (simp add: call_open_def type_lookup_def StdOutput_open_def StdOutput_new_def new_instance_def)

end
